theory Spec2Isabelle
  imports Complex_Main "HOL-Library.AList"
begin

section \<open>JavaScript values as the route handler sees them\<close>

text \<open>
  The weather route (\<^verbatim>\<open>src/app/api/weather/route.ts\<close>) works on whatever
  \<^verbatim>\<open>JSON.parse\<close> returns, without any schema check, so the model keeps the untyped
  values. A JSON number is a double: a finite one is a rational, and a numeral too large
  for a double parses to an infinity. \<^verbatim>\<open>JSON.parse\<close> never yields \<^verbatim>\<open>NaN\<close>; \<^verbatim>\<open>-0\<close> and
  \<^verbatim>\<open>0\<close> are the same rational, as they are for \<^verbatim>\<open>!==\<close>, for truthiness and for the keys
  of a \<^verbatim>\<open>Map\<close>. \<^verbatim>\<open>JUndefined\<close> is what reading an absent property gives.
\<close>

datatype jsnum = Finite rat | PosInfinity | NegInfinity

datatype jsval =
    JUndefined
  | JNull
  | JBool bool
  | JNumber jsnum
  | JString string
  | JArray "jsval list"
  | JObject "(string \<times> jsval) list"

text \<open>A thrown \<^verbatim>\<open>Error\<close> object; the handler only ever reads its \<^verbatim>\<open>message\<close>.\<close>

datatype thrown = Thrown (message: string)

text \<open>
  \<^verbatim>\<open>v.name\<close> for the property names the route reads (\<^verbatim>\<open>x402Version\<close>, \<^verbatim>\<open>scheme\<close>,
  \<^verbatim>\<open>network\<close>, \<^verbatim>\<open>payload\<close>, \<^verbatim>\<open>txHash\<close>, \<^verbatim>\<open>amount\<close>, \<^verbatim>\<open>from\<close>): none of them is a
  property of a boxed primitive, of an array or of \<^verbatim>\<open>Object.prototype\<close>, so only an
  object's own keys can answer. \<^verbatim>\<open>lookupProp\<close> is the read on a value that is neither
  \<^verbatim>\<open>undefined\<close> nor \<^verbatim>\<open>null\<close>; \<^verbatim>\<open>getProp\<close> adds the \<^verbatim>\<open>TypeError\<close> the engine raises on
  those two (\<^verbatim>\<open>te name\<close> is that error, its wording being the engine's).
\<close>

fun lookupProp :: "jsval \<Rightarrow> string \<Rightarrow> jsval" where
  "lookupProp (JObject kvs) name = (case map_of kvs name of None \<Rightarrow> JUndefined | Some v \<Rightarrow> v)"
| "lookupProp _ name = JUndefined"

definition nullish :: "jsval \<Rightarrow> bool" where
  "nullish v = (v = JUndefined \<or> v = JNull)"

definition getProp :: "(string \<Rightarrow> thrown) \<Rightarrow> jsval \<Rightarrow> string \<Rightarrow> thrown + jsval" where
  "getProp te v name = (if nullish v then Inl (te name) else Inr (lookupProp v name))"

text \<open>JavaScript truthiness, as \<^verbatim>\<open>if (payload.txHash)\<close> applies it.\<close>

fun truthy :: "jsval \<Rightarrow> bool" where
  "truthy JUndefined = False"
| "truthy JNull = False"
| "truthy (JBool b) = b"
| "truthy (JNumber n) = (n \<noteq> Finite 0)"
| "truthy (JString s) = (s \<noteq> [])"
| "truthy (JArray _) = True"
| "truthy (JObject _) = True"

text \<open>
  \<^verbatim>\<open>String.prototype.toLowerCase\<close> on the Latin capitals. The result is only ever compared
  with the lower-cased asset address, whose characters are ASCII digits and the letters
  \<^verbatim>\<open>a\<close> to \<^verbatim>\<open>f\<close> and \<^verbatim>\<open>x\<close>; no character outside ASCII lower-cases to one of those, so
  leaving the other characters alone gives the same verdict.
\<close>

definition toLowerChar :: "char \<Rightarrow> char" where
  "toLowerChar c =
     (let n = (of_char c :: nat) in if 65 \<le> n \<and> n \<le> 90 then char_of (n + 32) else c)"

definition toLowerCase :: "string \<Rightarrow> string" where
  "toLowerCase s = map toLowerChar s"

section \<open>Configuration\<close>

text \<open>\<^verbatim>\<open>X402_CONFIG\<close> of \<^verbatim>\<open>src/lib/axiom-config.ts\<close>.\<close>

record x402_config =
  network :: string
  chainId :: nat
  asset :: string
  assetAddress :: string
  assetDecimals :: nat
  recipient :: string
  rpcUrl :: string

definition X402_CONFIG :: x402_config where
  "X402_CONFIG =
     \<lparr> network = ''sei-testnet'',
       chainId = 1328,
       asset = ''USDC'',
       assetAddress = ''0x4fCF1784B31630811181f670Aea7A7bEF803eaED'',
       assetDecimals = 6,
       recipient = ''0x9dC2aA0038830c052253161B1EE49B9dD449bD66'',
       rpcUrl = ''https://evm-rpc-testnet.sei-apis.com'' \<rparr>"

section \<open>The world outside the handler\<close>

text \<open>
  What \<^verbatim>\<open>publicClient.getTransactionReceipt\<close> resolves to: the two fields the route reads.
  \<^verbatim>\<open>to\<close> is \<^verbatim>\<open>null\<close> for a contract creation.
\<close>

record receipt =
  status :: string
  to :: "string option"

text \<open>
  Everything the handler gets from its platform during one request:
  \<^item> \<^verbatim>\<open>base64ToString h\<close> is \<^verbatim>\<open>Buffer.from(h, "base64").toString()\<close>, which never throws;
  \<^item> \<^verbatim>\<open>JSON_parse\<close> returns the parsed value or throws a \<^verbatim>\<open>SyntaxError\<close>;
  \<^item> \<^verbatim>\<open>typeError name\<close> is the \<^verbatim>\<open>TypeError\<close> raised when \<^verbatim>\<open>name\<close> is read off
    \<^verbatim>\<open>undefined\<close> or \<^verbatim>\<open>null\<close>;
  \<^item> \<^verbatim>\<open>getTransactionReceipt hash\<close> is the awaited ledger query: it rejects with an error,
    or resolves to a receipt or to nothing;
  \<^item> \<^verbatim>\<open>now\<close> is \<^verbatim>\<open>Date.now()\<close>, milliseconds since the epoch (every path through the
    handler reads the clock at most once; the value is a non-negative integer far below
    \<^verbatim>\<open>1e21\<close>, which a template literal prints in plain decimal);
  \<^item> \<^verbatim>\<open>random36\<close> is \<^verbatim>\<open>Math.random().toString(36)\<close>;
  \<^item> \<^verbatim>\<open>isoNow\<close> is \<^verbatim>\<open>new Date().toISOString()\<close>.
\<close>

record runtime =
  base64ToString :: "string \<Rightarrow> string"
  JSON_parse :: "string \<Rightarrow> thrown + jsval"
  typeError :: "string \<Rightarrow> thrown"
  getTransactionReceipt :: "jsval \<Rightarrow> thrown + receipt option"
  now :: nat
  random36 :: string
  isoNow :: string

section \<open>The verified-payment store\<close>

text \<open>
  \<^verbatim>\<open>const verifiedPayments = new Map()\<close>: keys in insertion order. A \<^verbatim>\<open>Map\<close> compares
  primitive keys by value and objects and arrays by identity; every key comes out of a
  fresh \<^verbatim>\<open>JSON.parse\<close>, so an object or array key is never found again and every
  \<^verbatim>\<open>set\<close> of one adds an entry.
\<close>

record payment_record =
  timestamp :: nat
  amount :: jsval
  from' :: jsval

type_synonym payments = "(jsval \<times> payment_record) list"

fun isReference :: "jsval \<Rightarrow> bool" where
  "isReference (JArray _) = True"
| "isReference (JObject _) = True"
| "isReference _ = False"

definition Map_has :: "payments \<Rightarrow> jsval \<Rightarrow> bool" where
  "Map_has m k = (if isReference k then False else k \<in> fst ` set m)"

definition Map_set :: "payments \<Rightarrow> jsval \<Rightarrow> payment_record \<Rightarrow> payments" where
  "Map_set m k v = (if Map_has m k then AList.update k v m else m @ [(k, v)])"

section \<open>verifyPayment\<close>

record verification =
  isValid :: bool
  reason :: "string option"
  cached :: "bool option"
  txHash :: "jsval option"

definition rejected :: "string \<Rightarrow> verification" where
  "rejected why = \<lparr> isValid = False, reason = Some why, cached = None, txHash = None \<rparr>"

text \<open>
  The model returns, beside the function's result, the store after the call and the
  hashes it asked the ledger about, in order. One call is modelled as running alone: other
  requests interleaving at the \<^verbatim>\<open>await\<close> are outside this model.

  \<^verbatim>\<open>const { x402Version, scheme, network, payload } = paymentData\<close> throws on \<^verbatim>\<open>null\<close>.
\<close>

definition destructure ::
  "(string \<Rightarrow> thrown) \<Rightarrow> jsval \<Rightarrow> thrown + jsval \<times> jsval \<times> jsval \<times> jsval" where
  "destructure te paymentData =
     (if nullish paymentData then Inl (te ''x402Version'')
      else Inr (lookupProp paymentData ''x402Version'', lookupProp paymentData ''scheme'',
                lookupProp paymentData ''network'', lookupProp paymentData ''payload''))"

text \<open>Lines 90 to 119: the branch taken when \<^verbatim>\<open>payload.txHash\<close> is truthy.\<close>

definition verifyOnChain ::
  "runtime \<Rightarrow> payments \<Rightarrow> jsval \<Rightarrow> jsval
     \<Rightarrow> (thrown + verification) \<times> payments \<times> jsval list" where
  "verifyOnChain R verifiedPayments payload hash =
     (if Map_has verifiedPayments hash
      then (Inr \<lparr> isValid = True, reason = None, cached = Some True, txHash = None \<rparr>,
            verifiedPayments, [])
      else
        (case getTransactionReceipt R hash of
           Inl e \<Rightarrow> (Inl e, verifiedPayments, [hash])
         | Inr None \<Rightarrow>
             (Inr (rejected ''Transaction failed or not found''), verifiedPayments, [hash])
         | Inr (Some receipt) \<Rightarrow>
             if receipt.status receipt \<noteq> ''success''
             then (Inr (rejected ''Transaction failed or not found''), verifiedPayments, [hash])
             else if map_option toLowerCase (to receipt)
                       = Some (toLowerCase (assetAddress X402_CONFIG))
             then (Inr \<lparr> isValid = True, reason = None, cached = None, txHash = Some hash \<rparr>,
                   Map_set verifiedPayments hash
                     \<lparr> timestamp = now R,
                       amount = lookupProp payload ''amount'',
                       from' = lookupProp payload ''from'' \<rparr>,
                   [hash])
             else (Inr (rejected ''Invalid transfer details''), verifiedPayments, [hash])))"

text \<open>The body of the \<^verbatim>\<open>try\<close> block; \<^verbatim>\<open>Inl\<close> is an exception on its way to the \<^verbatim>\<open>catch\<close>.\<close>

definition verifyTry ::
  "runtime \<Rightarrow> payments \<Rightarrow> string \<Rightarrow> (thrown + verification) \<times> payments \<times> jsval list" where
  "verifyTry R verifiedPayments paymentHeader =
     (case JSON_parse R (base64ToString R paymentHeader) of
        Inl e \<Rightarrow> (Inl e, verifiedPayments, [])
      | Inr paymentData \<Rightarrow>
          (case destructure (typeError R) paymentData of
             Inl e \<Rightarrow> (Inl e, verifiedPayments, [])
           | Inr (x402Version, scheme, network', payload) \<Rightarrow>
               if x402Version \<noteq> JNumber (Finite 1) \<or> scheme \<noteq> JString ''exact''
                  \<or> network' \<noteq> JString (network X402_CONFIG)
               then (Inr (rejected ''Invalid payment format or network''), verifiedPayments, [])
               else
                 (case getProp (typeError R) payload ''txHash'' of
                    Inl e \<Rightarrow> (Inl e, verifiedPayments, [])
                  | Inr hash \<Rightarrow>
                      if truthy hash then verifyOnChain R verifiedPayments payload hash
                      else (Inr (rejected ''No valid payment proof provided''),
                            verifiedPayments, []))))"

definition verifyPayment ::
  "runtime \<Rightarrow> payments \<Rightarrow> string \<Rightarrow> verification \<times> payments \<times> jsval list" where
  "verifyPayment R verifiedPayments paymentHeader =
     (case verifyTry R verifiedPayments paymentHeader of
        (Inl error, store, asked) \<Rightarrow>
          (rejected (''Verification error: '' @ message error), store, asked)
      | (Inr result, store, asked) \<Rightarrow> (result, store, asked))"

section \<open>generatePaymentChallenge\<close>

text \<open>
  \<^verbatim>\<open>Number.prototype.toString\<close> and \<^verbatim>\<open>BigInt.prototype.toString\<close> on a non-negative
  integer: its decimal digits, no leading zero.
\<close>

definition digitChar :: "nat \<Rightarrow> char" where
  "digitChar d = char_of (48 + d)"

fun toDecimal :: "nat \<Rightarrow> string" where
  "toDecimal n = (if n < 10 then [digitChar n] else toDecimal (n div 10) @ [digitChar (n mod 10)])"

declare toDecimal.simps [simp del]

text \<open>
  Modelled from the spec: \<^verbatim>\<open>parseUnits\<close> is imported from the \<^verbatim>\<open>viem\<close> package, whose
  code is not in the repository. The spec has an amount "in the asset's smallest unit", an
  "integer representation of an asset amount scaled by its decimal precision", and
  \<^verbatim>\<open>"1000"\<close> for 0.001 of a 6-decimal asset. So: an unsigned decimal numeral with at most
  \<^verbatim>\<open>decimals\<close> fraction digits is multiplied by \<^verbatim>\<open>10 ^ decimals\<close>; \<^verbatim>\<open>None\<close> stands for
  every other input (where the library rounds or throws), which the route never passes.
\<close>

definition isDigit :: "char \<Rightarrow> bool" where
  "isDigit c = (let n = (of_char c :: nat) in 48 \<le> n \<and> n \<le> 57)"

definition digitsValue :: "string \<Rightarrow> nat" where
  "digitsValue ds = foldl (\<lambda>acc c. 10 * acc + (of_char c - 48)) 0 ds"

definition parseUnits :: "string \<Rightarrow> nat \<Rightarrow> nat option" where
  "parseUnits s decimals =
     (let integer = takeWhile (\<lambda>c. c \<noteq> CHR ''.'') s;
          fraction = drop 1 (dropWhile (\<lambda>c. c \<noteq> CHR ''.'') s)
      in if integer @ fraction \<noteq> [] \<and> list_all isDigit integer \<and> list_all isDigit fraction
            \<and> length fraction \<le> decimals
         then Some (digitsValue (integer @ fraction @ replicate (decimals - length fraction) CHR ''0''))
         else None)"

record option_extra =
  name :: string
  version :: string
  reference :: string

record payment_option =
  scheme :: string
  network :: string
  maxAmountRequired :: string
  resource :: string
  description :: string
  mimeType :: string
  payTo :: string
  maxTimeoutSeconds :: nat
  asset :: string
  extra :: option_extra

record challenge =
  x402Version :: nat
  accepts :: "payment_option list"
  error :: "string option"

text \<open>
  \<^verbatim>\<open>substring(7)\<close> is \<^verbatim>\<open>drop 7\<close>. \<^verbatim>\<open>None\<close> is an exception out of \<^verbatim>\<open>parseUnits\<close>, which
  the function does not catch.
\<close>

definition generatePaymentChallenge :: "runtime \<Rightarrow> challenge option" where
  "generatePaymentChallenge R =
     (let reference = ''sei-'' @ toDecimal (now R) @ ''-'' @ drop 7 (random36 R) in
      case parseUnits ''0.001'' (assetDecimals X402_CONFIG) of
        None \<Rightarrow> None
      | Some amountInUnits \<Rightarrow>
          Some \<lparr> x402Version = 1,
                 accepts =
                   [\<lparr> scheme = ''exact'',
                      network = x402_config.network X402_CONFIG,
                      maxAmountRequired = toDecimal amountInUnits,
                      resource = ''/api/weather'',
                      description = ''Get current weather data'',
                      mimeType = ''application/json'',
                      payTo = recipient X402_CONFIG,
                      maxTimeoutSeconds = 300,
                      asset = assetAddress X402_CONFIG,
                      extra = \<lparr> name = x402_config.asset X402_CONFIG,
                                version = ''2'',
                                reference = reference \<rparr> \<rparr>],
                 error = None \<rparr>)"

section \<open>GET /api/weather\<close>

text \<open>
  The mock payload. A JavaScript string is a sequence of 16-bit units; the degree sign is
  the single unit \<^verbatim>\<open>0xB0\<close>.
\<close>

record weather =
  location :: string
  temperature :: string
  conditions :: string
  humidity :: string
  windSpeed :: string
  timestamp :: string
  payment :: verification

datatype body = ChallengeBody challenge | WeatherBody weather

record response =
  status :: nat
  body :: body

text \<open>
  The request is the value of its \<^verbatim>\<open>x-payment\<close> header, \<^verbatim>\<open>None\<close> when it carries none.
  \<^verbatim>\<open>!paymentHeader\<close> also holds of the empty string, and \<^verbatim>\<open>a || b\<close> is \<^verbatim>\<open>b\<close> when \<^verbatim>\<open>a\<close> is
  \<^verbatim>\<open>undefined\<close> or empty. \<^verbatim>\<open>NextResponse.json\<close> answers 200 unless told otherwise. The
  result \<^verbatim>\<open>None\<close> is an exception leaving the handler.
\<close>

definition orDefault :: "string option \<Rightarrow> string \<Rightarrow> string" where
  "orDefault a b = (case a of None \<Rightarrow> b | Some s \<Rightarrow> if s = [] then b else s)"

definition GET ::
  "runtime \<Rightarrow> payments \<Rightarrow> string option \<Rightarrow> response option \<times> payments \<times> jsval list" where
  "GET R verifiedPayments paymentHeader =
     (let unpaid =
            (map_option (\<lambda>c. \<lparr> status = 402, body = ChallengeBody c \<rparr>)
               (generatePaymentChallenge R),
             verifiedPayments, [])
      in case paymentHeader of
           None \<Rightarrow> unpaid
         | Some header \<Rightarrow>
             if header = [] then unpaid
             else
               (case verifyPayment R verifiedPayments header of
                  (verification, store, asked) \<Rightarrow>
                    if \<not> isValid verification
                    then (map_option
                            (\<lambda>c. \<lparr> status = 402,
                                   body = ChallengeBody
                                     (c\<lparr> error := Some (orDefault (reason verification)
                                                          ''Payment verification failed'') \<rparr>) \<rparr>)
                            (generatePaymentChallenge R),
                          store, asked)
                    else (Some \<lparr> status = 200,
                                 body = WeatherBody
                                   \<lparr> location = ''Sei Network'',
                                     temperature = ''99'' @ [CHR 0xB0] @ ''F'',
                                     conditions = ''Sunny'',
                                     humidity = ''45%'',
                                     windSpeed = ''8 mph'',
                                     timestamp = isoNow R,
                                     payment = verification \<rparr> \<rparr>,
                          store, asked)))"

section \<open>Concrete requests\<close>

text \<open>
  The proof object the agent's \<^verbatim>\<open>getWeather\<close> action sends (\<^verbatim>\<open>src/lib/axiom-config.ts\<close>,
  \<^verbatim>\<open>paymentProof\<close>), as \<^verbatim>\<open>JSON.parse\<close> hands it to the route: the transaction hash, the
  amount in smallest units and the payer's address are strings.
\<close>

definition paymentProof :: "string \<Rightarrow> string \<Rightarrow> string \<Rightarrow> jsval" where
  "paymentProof hash amt payer =
     JObject
       [(''x402Version'', JNumber (Finite 1)),
        (''scheme'', JString ''exact''),
        (''network'', JString (x402_config.network X402_CONFIG)),
        (''payload'',
           JObject [(''txHash'', JString hash), (''amount'', JString amt), (''from'', JString payer)])]"

text \<open>
  A platform for the worked examples: the request's header decodes to \<^verbatim>\<open>parsed\<close>, the
  ledger answers as \<^verbatim>\<open>ledger\<close>, the clock reads \<^verbatim>\<open>clock\<close> and \<^verbatim>\<open>Math.random()\<close> prints as
  \<^verbatim>\<open>rnd\<close> in base 36. The \<^verbatim>\<open>TypeError\<close> messages are V8's, for the two places where the
  route can raise one: destructuring a parsed \<^verbatim>\<open>null\<close>, and reading \<^verbatim>\<open>txHash\<close> off an
  absent payload (\<^verbatim>\<open>CHR 0x27\<close> is the single quote).
\<close>

definition platform ::
  "(thrown + jsval) \<Rightarrow> (jsval \<Rightarrow> thrown + receipt option) \<Rightarrow> nat \<Rightarrow> string \<Rightarrow> runtime" where
  "platform parsed ledger clock rnd =
     \<lparr> base64ToString = (\<lambda>h. h),
       JSON_parse = (\<lambda>text. parsed),
       typeError =
         (\<lambda>name. Thrown
            (if name = ''x402Version''
             then ''Cannot destructure property '' @ [CHR 0x27] @ name @ [CHR 0x27] @ '' of ''
                  @ [CHR 0x27] @ ''paymentData'' @ [CHR 0x27] @ '' as it is null.''
             else ''Cannot read properties of undefined (reading '' @ [CHR 0x27] @ name
                  @ [CHR 0x27] @ '')'')),
       getTransactionReceipt = ledger,
       now = clock,
       random36 = rnd,
       isoNow = ''2025-01-01T00:00:00.000Z'' \<rparr>"

text \<open>What a response tells the client: the \<^verbatim>\<open>error\<close> of the challenge in its body.\<close>

definition challengeError :: "response option \<Rightarrow> string option" where
  "challengeError r =
     (case r of
        Some resp \<Rightarrow> (case body resp of ChallengeBody c \<Rightarrow> error c | WeatherBody w \<Rightarrow> None)
      | None \<Rightarrow> None)"

text \<open>The \<^verbatim>\<open>extra.reference\<close> values of an issued challenge, one per accepted option.\<close>

definition references :: "challenge option \<Rightarrow> string list" where
  "references issued =
     (case issued of None \<Rightarrow> [] | Some c \<Rightarrow> map (\<lambda>opt. reference (extra opt)) (accepts c))"

section \<open>Properties\<close>

subsection \<open>Reading a payment proof\<close>

lemmas verify_defs = verifyPayment_def verifyTry_def destructure_def getProp_def verifyOnChain_def

lemma truthy_not_nullish: "truthy (lookupProp p k) \<Longrightarrow> \<not> nullish p"
  by (auto simp: nullish_def)

text \<open>A proof that passes the gate and carries a truthy hash reaches the on-chain branch.\<close>

lemma verifyTry_reaches_chain:
  assumes "JSON_parse R (base64ToString R h) = Inr d"
      and "lookupProp d ''x402Version'' = JNumber (Finite 1)"
      and "lookupProp d ''scheme'' = JString ''exact''"
      and "lookupProp d ''network'' = JString (x402_config.network X402_CONFIG)"
      and "lookupProp (lookupProp d ''payload'') ''txHash'' = k"
      and "truthy k"
  shows "verifyTry R vp h = verifyOnChain R vp (lookupProp d ''payload'') k"
proof -
  have "\<not> nullish d"
    using assms(2) by (auto simp: nullish_def)
  moreover have "\<not> nullish (lookupProp d ''payload'')"
    using assms(5,6) truthy_not_nullish by blast
  ultimately show ?thesis
    using assms by (simp add: verifyTry_def destructure_def getProp_def)
qed

lemma paymentProof_fields:
  "lookupProp (paymentProof k a f) ''x402Version'' = JNumber (Finite 1)"
  "lookupProp (paymentProof k a f) ''scheme'' = JString ''exact''"
  "lookupProp (paymentProof k a f) ''network'' = JString (x402_config.network X402_CONFIG)"
  "lookupProp (lookupProp (paymentProof k a f) ''payload'') ''txHash'' = JString k"
  "lookupProp (lookupProp (paymentProof k a f) ''payload'') ''amount'' = JString a"
  "lookupProp (lookupProp (paymentProof k a f) ''payload'') ''from'' = JString f"
  by (simp_all add: paymentProof_def)

lemma platform_fields:
  "base64ToString (platform p l t r) h = h"
  "JSON_parse (platform p l t r) s = p"
  "getTransactionReceipt (platform p l t r) = l"
  "now (platform p l t r) = t"
  "random36 (platform p l t r) = r"
  by (simp_all add: platform_def)

subsection \<open>Decimal rendering\<close>

lemma toDecimal_not_Nil: "toDecimal n \<noteq> []"
  by (subst toDecimal.simps) simp

lemma isDigit_digitChar: "d < 10 \<Longrightarrow> isDigit (digitChar d)"
  by (simp add: isDigit_def digitChar_def)

lemma digitChar_inj: "a < 10 \<Longrightarrow> b < 10 \<Longrightarrow> digitChar a = digitChar b \<Longrightarrow> a = b"
  by (simp add: digitChar_def char_of_eq_iff take_bit_nat_eq_self)

lemma toDecimal_digits: "list_all isDigit (toDecimal n)"
proof (induction n rule: toDecimal.induct)
  case (1 n)
  show ?case
  proof (cases "n < 10")
    case True
    then show ?thesis by (subst toDecimal.simps) (simp add: isDigit_digitChar)
  next
    case False
    with 1 show ?thesis by (subst toDecimal.simps) (simp add: isDigit_digitChar)
  qed
qed

text \<open>Two numbers with the same digits are the same number.\<close>

lemma toDecimal_inj: "toDecimal m = toDecimal n \<Longrightarrow> m = n"
proof (induction m arbitrary: n rule: toDecimal.induct)
  case (1 m)
  show ?case
  proof (cases "m < 10")
    case small_m: True
    show ?thesis
    proof (cases "n < 10")
      case True
      with small_m 1(2) show ?thesis
        by (simp add: toDecimal.simps[of m] toDecimal.simps[of n] digitChar_inj)
    next
      case False
      with small_m 1(2) toDecimal_not_Nil[of "n div 10"] show ?thesis
        by (simp add: toDecimal.simps[of m] toDecimal.simps[of n])
    qed
  next
    case big_m: False
    show ?thesis
    proof (cases "n < 10")
      case True
      with big_m 1(2) toDecimal_not_Nil[of "m div 10"] show ?thesis
        by (simp add: toDecimal.simps[of m] toDecimal.simps[of n])
    next
      case False
      with big_m 1(2) have eq: "toDecimal (m div 10) = toDecimal (n div 10)"
        and d: "digitChar (m mod 10) = digitChar (n mod 10)"
        by (simp_all add: toDecimal.simps[of m] toDecimal.simps[of n])
      from 1(1)[OF big_m eq] have "m div 10 = n div 10" .
      moreover from d have "m mod 10 = n mod 10" by (simp add: digitChar_inj)
      ultimately show ?thesis by (metis div_mult_mod_eq)
    qed
  qed
qed

text \<open>A run of digits ends at the first character that is not one.\<close>

lemma split_at_separator:
  assumes "list_all P xs" and "list_all P ys" and "\<not> P c"
      and "xs @ c # s = ys @ c # t"
  shows "xs = ys \<and> s = t"
proof -
  have "takeWhile P (xs @ c # s) = xs" using assms(1,3)
    by (simp add: takeWhile_tail list_all_iff)
  moreover have "takeWhile P (ys @ c # t) = ys" using assms(2,3)
    by (simp add: takeWhile_tail list_all_iff)
  ultimately have "xs = ys" using assms(4) by simp
  with assms(4) show ?thesis by simp
qed

lemma reference_inj:
  assumes "''sei-'' @ toDecimal a @ ''-'' @ s = ''sei-'' @ toDecimal b @ ''-'' @ t"
  shows "a = b \<and> s = t"
proof -
  have "\<not> isDigit CHR ''-''" by (simp add: isDigit_def)
  moreover from assms have "toDecimal a @ CHR ''-'' # s = toDecimal b @ CHR ''-'' # t" by simp
  ultimately have "toDecimal a = toDecimal b \<and> s = t"
    using split_at_separator[OF toDecimal_digits toDecimal_digits] by blast
  then show ?thesis using toDecimal_inj by blast
qed

subsection \<open>The issuer\<close>

lemma parseUnits_price: "parseUnits ''0.001'' (assetDecimals X402_CONFIG) = Some 1000"
  by code_simp

lemma toDecimal_1000: "toDecimal 1000 = ''1000''"
  by code_simp

lemma generatePaymentChallenge_issues:
  "generatePaymentChallenge R =
     Some \<lparr> x402Version = 1,
            accepts =
              [\<lparr> scheme = ''exact'',
                 network = x402_config.network X402_CONFIG,
                 maxAmountRequired = ''1000'',
                 resource = ''/api/weather'',
                 description = ''Get current weather data'',
                 mimeType = ''application/json'',
                 payTo = recipient X402_CONFIG,
                 maxTimeoutSeconds = 300,
                 asset = assetAddress X402_CONFIG,
                 extra = \<lparr> name = x402_config.asset X402_CONFIG, version = ''2'',
                           reference = ''sei-'' @ toDecimal (now R) @ ''-'' @ drop 7 (random36 R) \<rparr> \<rparr>],
            error = None \<rparr>"
  by (simp add: generatePaymentChallenge_def parseUnits_price toDecimal_1000)

lemma references_issued:
  "references (generatePaymentChallenge R)
     = [''sei-'' @ toDecimal (now R) @ ''-'' @ drop 7 (random36 R)]"
  by (simp add: generatePaymentChallenge_issues references_def)

text \<open>
  C7. Every challenge has version 1 and exactly one option: scheme \<^verbatim>\<open>exact\<close>, amount
  \<^verbatim>\<open>"1000"\<close>, paid to the configured recipient, 300 seconds, in the configured asset.
\<close>

theorem challenge_contents:
  "\<exists>c opt. generatePaymentChallenge R = Some c
     \<and> x402Version c = 1
     \<and> accepts c = [opt]
     \<and> scheme opt = ''exact''
     \<and> maxAmountRequired opt = ''1000''
     \<and> payTo opt = recipient X402_CONFIG
     \<and> maxTimeoutSeconds opt = 300
     \<and> asset opt = assetAddress X402_CONFIG"
  by (simp add: generatePaymentChallenge_issues)

theorem challenge_contents_witness:
  "\<exists>c opt. generatePaymentChallenge (platform (Inr JNull) (\<lambda>hash. Inr None) 1700000000000 ''0.4fzyo82mvyr'')
              = Some c
     \<and> x402Version c = 1
     \<and> accepts c = [opt]
     \<and> scheme opt = ''exact''
     \<and> maxAmountRequired opt = ''1000''
     \<and> payTo opt = recipient X402_CONFIG
     \<and> maxTimeoutSeconds opt = 300
     \<and> asset opt = assetAddress X402_CONFIG"
  by (rule challenge_contents)

text \<open>
  C8, as the code has it. The reference is \<^verbatim>\<open>sei-\<close>, the clock's digits, a dash and the
  random text from its eighth character on. So the references of any number of challenges
  are pairwise distinct exactly when the pairs (clock reading, random suffix) are: nothing
  keeps two challenges of the same millisecond apart when their suffixes agree.
\<close>

theorem references_distinct_iff:
  "distinct (map (\<lambda>R. references (generatePaymentChallenge R)) Rs)
     \<longleftrightarrow> distinct (map (\<lambda>R. (now R, drop 7 (random36 R))) Rs)"
proof -
  let ?f = "\<lambda>(t, s). [''sei-'' @ toDecimal t @ ''-'' @ s]"
  have "inj ?f"
    by (rule injI) (use reference_inj in \<open>auto simp del: append.simps\<close>)
  then have inj: "inj_on ?f A" for A by (rule inj_on_subset) simp
  have "map (\<lambda>R. references (generatePaymentChallenge R)) Rs
          = map ?f (map (\<lambda>R. (now R, drop 7 (random36 R))) Rs)"
    by (simp add: references_issued)
  then show ?thesis by (simp only: distinct_map inj simp_thms)
qed

theorem references_distinct_iff_witness:
  "distinct (map (\<lambda>R. references (generatePaymentChallenge R))
     [platform (Inr JNull) (\<lambda>hash. Inr None) 1700000000000 ''0.i'',
      platform (Inr JNull) (\<lambda>hash. Inr None) 1700000000001 ''0.i'',
      platform (Inr JNull) (\<lambda>hash. Inr None) 1700000000001 ''0.4fzyo82mvyr''])"
  using references_distinct_iff
          [of "[platform (Inr JNull) (\<lambda>hash. Inr None) 1700000000000 ''0.i'',
                platform (Inr JNull) (\<lambda>hash. Inr None) 1700000000001 ''0.i'',
                platform (Inr JNull) (\<lambda>hash. Inr None) 1700000000001 ''0.4fzyo82mvyr'']"]
  by (simp add: platform_fields)

text \<open>
  The claim fails within one millisecond: \<^verbatim>\<open>Math.random()\<close> returning 0.5 and then 0.25
  prints as \<^verbatim>\<open>0.i\<close> and \<^verbatim>\<open>0.9\<close>, both shorter than eight characters, so both references are
  \<^verbatim>\<open>sei-1700000000000-\<close>.
\<close>

theorem references_collide_within_millisecond:
  "\<not> distinct (map (\<lambda>R. references (generatePaymentChallenge R))
     [platform (Inr JNull) (\<lambda>hash. Inr None) 1700000000000 ''0.i'',
      platform (Inr JNull) (\<lambda>hash. Inr None) 1700000000000 ''0.9''])"
  by (simp add: references_issued platform_fields)

subsection \<open>The verifier\<close>

text \<open>
  A proof that passes the version, scheme and network gate and whose \<^verbatim>\<open>payload.txHash\<close> is
  already a key of the store is answered with \<^verbatim>\<open>{ isValid: true, cached: true }\<close> and
  nothing else.
\<close>

lemma cached_hash_answer:
  assumes "JSON_parse R (base64ToString R h) = Inr d"
      and "lookupProp d ''x402Version'' = JNumber (Finite 1)"
      and "lookupProp d ''scheme'' = JString ''exact''"
      and "lookupProp d ''network'' = JString (x402_config.network X402_CONFIG)"
      and "lookupProp (lookupProp d ''payload'') ''txHash'' = k"
      and "truthy k"
      and "Map_has vp k"
  shows "verifyPayment R vp h
           = (\<lparr> isValid = True, reason = None, cached = Some True, txHash = None \<rparr>, vp, [])"
  by (simp add: verifyPayment_def verifyTry_reaches_chain[OF assms(1-6)] verifyOnChain_def assms(7))

text \<open>
  C1, without the echo. A proof that passes the gate and carries a transaction id that is a
  key of the store is answered valid and marked cached; the store is untouched and the
  ledger is not asked.
\<close>

theorem cached_hash_short_circuits:
  assumes "JSON_parse R (base64ToString R h) = Inr d"
      and "lookupProp d ''x402Version'' = JNumber (Finite 1)"
      and "lookupProp d ''scheme'' = JString ''exact''"
      and "lookupProp d ''network'' = JString (x402_config.network X402_CONFIG)"
      and "lookupProp (lookupProp d ''payload'') ''txHash'' = k"
      and "truthy k"
      and "Map_has vp k"
  shows "\<exists>v. verifyPayment R vp h = (v, vp, []) \<and> isValid v \<and> cached v = Some True"
  by (simp add: cached_hash_answer[OF assms])

theorem cached_hash_short_circuits_witness:
  "\<exists>v. verifyPayment
          (platform (Inr (paymentProof ''0xabc'' ''1000'' ''0x01'')) (\<lambda>hash. Inl (Thrown ''offline''))
             1700000000000 ''0.4fzyo82mvyr'')
          [(JString ''0xabc'', \<lparr> payment_record.timestamp = 1690000000000,
                                 amount = JString ''1000'', from' = JString ''0x01'' \<rparr>)]
          ''header''
        = (v,
           [(JString ''0xabc'', \<lparr> payment_record.timestamp = 1690000000000,
                                  amount = JString ''1000'', from' = JString ''0x01'' \<rparr>)],
           [])
      \<and> isValid v \<and> cached v = Some True"
  by (rule cached_hash_short_circuits[where d = "paymentProof ''0xabc'' ''1000'' ''0x01''"
        and k = "JString ''0xabc''"])
     (simp_all add: paymentProof_fields platform_fields Map_has_def)

text \<open>
  The claim fails on the echo: the hash \<^verbatim>\<open>0xabc\<close> is a key of the store, the proof carries
  it, and the answer has no \<^verbatim>\<open>txHash\<close>.
\<close>

theorem cached_answer_has_no_txHash:
  "Map_has [(JString ''0xabc'', \<lparr> payment_record.timestamp = 1690000000000,
                                   amount = JString ''1000'', from' = JString ''0x01'' \<rparr>)]
     (JString ''0xabc'')
   \<and> txHash (fst (verifyPayment
        (platform (Inr (paymentProof ''0xabc'' ''1000'' ''0x01'')) (\<lambda>hash. Inl (Thrown ''offline''))
           1700000000000 ''0.4fzyo82mvyr'')
        [(JString ''0xabc'', \<lparr> payment_record.timestamp = 1690000000000,
                               amount = JString ''1000'', from' = JString ''0x01'' \<rparr>)]
        ''header''))
     \<noteq> Some (JString ''0xabc'')"
proof -
  have cached: "Map_has [(JString ''0xabc'', \<lparr> payment_record.timestamp = 1690000000000,
                                   amount = JString ''1000'', from' = JString ''0x01'' \<rparr>)]
     (JString ''0xabc'')"
    by (simp add: Map_has_def)
  have "verifyPayment
        (platform (Inr (paymentProof ''0xabc'' ''1000'' ''0x01'')) (\<lambda>hash. Inl (Thrown ''offline''))
           1700000000000 ''0.4fzyo82mvyr'')
        [(JString ''0xabc'', \<lparr> payment_record.timestamp = 1690000000000,
                               amount = JString ''1000'', from' = JString ''0x01'' \<rparr>)]
        ''header''
     = (\<lparr> isValid = True, reason = None, cached = Some True, txHash = None \<rparr>,
        [(JString ''0xabc'', \<lparr> payment_record.timestamp = 1690000000000,
                               amount = JString ''1000'', from' = JString ''0x01'' \<rparr>)],
        [])"
    by (rule cached_hash_answer[where d = "paymentProof ''0xabc'' ''1000'' ''0x01''"
          and k = "JString ''0xabc''"])
       (simp_all add: paymentProof_fields platform_fields cached)
  with cached show ?thesis by simp
qed

text \<open>
  C2, as the code has it. Whatever parses to a value other than \<^verbatim>\<open>null\<close> with
  \<^verbatim>\<open>x402Version\<close> not the number 1, or \<^verbatim>\<open>scheme\<close> not \<^verbatim>\<open>"exact"\<close>, or \<^verbatim>\<open>network\<close> not
  the configured network is rejected, whatever its other fields are, with the store
  untouched and the ledger not asked. The reason is spelled
  \<^verbatim>\<open>Invalid payment format or network\<close>, with a capital I.
\<close>

theorem gate_rejects_mismatch:
  assumes "JSON_parse R (base64ToString R h) = Inr d"
      and "\<not> nullish d"
      and "lookupProp d ''x402Version'' \<noteq> JNumber (Finite 1)
           \<or> lookupProp d ''scheme'' \<noteq> JString ''exact''
           \<or> lookupProp d ''network'' \<noteq> JString (x402_config.network X402_CONFIG)"
  shows "verifyPayment R vp h = (rejected ''Invalid payment format or network'', vp, [])"
  using assms by (auto simp: verify_defs)

theorem gate_rejects_mismatch_witness:
  "verifyPayment
     (platform
        (Inr (JObject [(''x402Version'', JNumber (Finite 1)), (''scheme'', JString ''exact''),
                       (''network'', JString ''other-network''),
                       (''payload'', JObject [(''txHash'', JString ''0xabc'')])]))
        (\<lambda>hash. Inr (Some \<lparr> receipt.status = ''success'', to = Some (assetAddress X402_CONFIG) \<rparr>))
        1700000000000 ''0.4fzyo82mvyr'')
     [] ''header''
   = (rejected ''Invalid payment format or network'', [], [])"
  by (rule gate_rejects_mismatch[where d =
        "JObject [(''x402Version'', JNumber (Finite 1)), (''scheme'', JString ''exact''),
                  (''network'', JString ''other-network''),
                  (''payload'', JObject [(''txHash'', JString ''0xabc'')])]"])
     (simp_all add: platform_fields nullish_def X402_CONFIG_def)

text \<open>
  The claim's reason string is not the one returned: a proof for \<^verbatim>\<open>other-network\<close> is
  rejected with \<^verbatim>\<open>Invalid payment format or network\<close>.
\<close>

theorem gate_reason_is_capitalised:
  "reason (fst (verifyPayment
     (platform
        (Inr (JObject [(''x402Version'', JNumber (Finite 1)), (''scheme'', JString ''exact''),
                       (''network'', JString ''other-network''),
                       (''payload'', JObject [(''txHash'', JString ''0xabc'')])]))
        (\<lambda>hash. Inr (Some \<lparr> receipt.status = ''success'', to = Some (assetAddress X402_CONFIG) \<rparr>))
        1700000000000 ''0.4fzyo82mvyr'')
     [] ''header''))
   \<noteq> Some ''invalid payment format or network''"
  by (simp add: verify_defs nullish_def platform_def X402_CONFIG_def rejected_def)

text \<open>
  C3, as the code has it. For a proof that passes the gate with a truthy hash not yet in
  the store, and a receipt with status \<^verbatim>\<open>success\<close>: a destination whose lower-casing is
  that of the asset address gives \<^verbatim>\<open>isValid: true\<close> with the hash, and one new entry
  (clock reading, claimed amount, claimed payer) under the hash; any other destination,
  or none, gives \<^verbatim>\<open>Invalid transfer details\<close> (capital I) and leaves the store alone.
\<close>

theorem destination_check:
  assumes "JSON_parse R (base64ToString R h) = Inr d"
      and "lookupProp d ''x402Version'' = JNumber (Finite 1)"
      and "lookupProp d ''scheme'' = JString ''exact''"
      and "lookupProp d ''network'' = JString (x402_config.network X402_CONFIG)"
      and "lookupProp (lookupProp d ''payload'') ''txHash'' = k"
      and "truthy k"
      and "\<not> Map_has vp k"
      and "getTransactionReceipt R k = Inr (Some r)"
      and "receipt.status r = ''success''"
  shows "verifyPayment R vp h =
     (if map_option toLowerCase (to r) = Some (toLowerCase (assetAddress X402_CONFIG))
      then (\<lparr> isValid = True, reason = None, cached = None, txHash = Some k \<rparr>,
            vp @ [(k, \<lparr> payment_record.timestamp = now R,
                        amount = lookupProp (lookupProp d ''payload'') ''amount'',
                        from' = lookupProp (lookupProp d ''payload'') ''from'' \<rparr>)],
            [k])
      else (rejected ''Invalid transfer details'', vp, [k]))"
  by (auto simp: verifyPayment_def verifyTry_reaches_chain[OF assms(1-6)] verifyOnChain_def
        Map_set_def assms(7-))

theorem destination_check_witness:
  "verifyPayment
     (platform (Inr (paymentProof ''0xabc'' ''1000'' ''0x01''))
        (\<lambda>hash. Inr (Some \<lparr> receipt.status = ''success'',
                             to = Some ''0x4FCF1784B31630811181F670AEA7A7BEF803EAED'' \<rparr>))
        1700000000000 ''0.4fzyo82mvyr'')
     [] ''header''
   = (\<lparr> isValid = True, reason = None, cached = None, txHash = Some (JString ''0xabc'') \<rparr>,
      [(JString ''0xabc'', \<lparr> payment_record.timestamp = 1700000000000, amount = JString ''1000'',
                             from' = JString ''0x01'' \<rparr>)],
      [JString ''0xabc''])"
proof -
  have lowered: "toLowerCase ''0x4FCF1784B31630811181F670AEA7A7BEF803EAED''
                   = toLowerCase (assetAddress X402_CONFIG)"
    by code_simp
  show ?thesis
    using destination_check[where d = "paymentProof ''0xabc'' ''1000'' ''0x01''"
        and k = "JString ''0xabc''" and vp = "[]" and h = "''header''"
        and R = "platform (Inr (paymentProof ''0xabc'' ''1000'' ''0x01''))
                   (\<lambda>hash. Inr (Some \<lparr> receipt.status = ''success'',
                                        to = Some ''0x4FCF1784B31630811181F670AEA7A7BEF803EAED'' \<rparr>))
                   1700000000000 ''0.4fzyo82mvyr''"
        and r = "\<lparr> receipt.status = ''success'',
                    to = Some ''0x4FCF1784B31630811181F670AEA7A7BEF803EAED'' \<rparr>"]
    by (simp add: paymentProof_fields platform_fields Map_has_def lowered)
qed

text \<open>
  The claim's reason string is not the one returned: a successful transaction sent to the
  recipient's own address, not to the asset contract, is rejected with
  \<^verbatim>\<open>Invalid transfer details\<close>.
\<close>

theorem destination_reason_is_capitalised:
  "reason (fst (verifyPayment
     (platform (Inr (paymentProof ''0xabc'' ''1000'' ''0x01''))
        (\<lambda>hash. Inr (Some \<lparr> receipt.status = ''success'',
                             to = Some ''0x9dC2aA0038830c052253161B1EE49B9dD449bD66'' \<rparr>))
        1700000000000 ''0.4fzyo82mvyr'')
     [] ''header''))
   \<noteq> Some ''invalid transfer details''"
proof -
  have differ: "toLowerCase ''0x9dC2aA0038830c052253161B1EE49B9dD449bD66''
                  \<noteq> toLowerCase (assetAddress X402_CONFIG)"
    by code_simp
  have "verifyTry
     (platform (Inr (paymentProof ''0xabc'' ''1000'' ''0x01''))
        (\<lambda>hash. Inr (Some \<lparr> receipt.status = ''success'',
                             to = Some ''0x9dC2aA0038830c052253161B1EE49B9dD449bD66'' \<rparr>))
        1700000000000 ''0.4fzyo82mvyr'')
     [] ''header''
    = (Inr (rejected ''Invalid transfer details''), [], [JString ''0xabc''])"
    by (subst verifyTry_reaches_chain[where d = "paymentProof ''0xabc'' ''1000'' ''0x01''"
          and k = "JString ''0xabc''"])
       (simp_all add: paymentProof_fields platform_fields verifyOnChain_def Map_has_def differ)
  then show ?thesis
    by (simp add: verifyPayment_def rejected_def)
qed










text \<open>The verdict of the on-chain branch does not depend on the payload it is given.\<close>

lemma verifyOnChain_verdict_ignores_payload:
  "map_sum id isValid (fst (verifyOnChain R vp p k)) = map_sum id isValid (fst (verifyOnChain R vp q k))"
  by (auto simp: verifyOnChain_def rejected_def split: sum.splits option.splits)

lemma verifyPayment_verdict:
  "isValid (fst (verifyPayment R vp h))
     = (case fst (verifyTry R vp h) of Inl e \<Rightarrow> False | Inr v \<Rightarrow> isValid v)"
  by (simp add: verifyPayment_def rejected_def split: prod.splits sum.splits)

lemma verifyTry_verdict:
  assumes "JSON_parse R (base64ToString R h) = Inr d"
  shows "(case fst (verifyTry R vp h) of Inl e \<Rightarrow> False | Inr v \<Rightarrow> isValid v)
     = (lookupProp d ''x402Version'' = JNumber (Finite 1)
        \<and> lookupProp d ''scheme'' = JString ''exact''
        \<and> lookupProp d ''network'' = JString (x402_config.network X402_CONFIG)
        \<and> truthy (lookupProp (lookupProp d ''payload'') ''txHash'')
        \<and> (case fst (verifyOnChain R vp JNull (lookupProp (lookupProp d ''payload'') ''txHash''))
              of Inl e \<Rightarrow> False | Inr v \<Rightarrow> isValid v))"
proof (cases "nullish d")
  case True
  then show ?thesis
    using assms by (auto simp: verifyTry_def destructure_def nullish_def)
next
  case d_ok: False
  show ?thesis
  proof (cases "nullish (lookupProp d ''payload'')")
    case True
    then have "\<not> truthy (lookupProp (lookupProp d ''payload'') ''txHash'')"
      by (auto simp: nullish_def)
    with True d_ok show ?thesis
      using assms by (auto simp: verifyTry_def destructure_def getProp_def rejected_def)
  next
    case False
    have "(case fst (verifyOnChain R vp p k) of Inl e \<Rightarrow> False | Inr v \<Rightarrow> isValid v)
            = (case fst (verifyOnChain R vp JNull k) of Inl e \<Rightarrow> False | Inr v \<Rightarrow> isValid v)"
      for p k
      using verifyOnChain_verdict_ignores_payload[of R vp p k JNull]
      by (auto split: sum.splits)
    with False d_ok show ?thesis
      using assms by (auto simp: verifyTry_def destructure_def getProp_def rejected_def)
  qed
qed

text \<open>
  C9. Two headers that parse to values with the same \<^verbatim>\<open>x402Version\<close>, \<^verbatim>\<open>scheme\<close>,
  \<^verbatim>\<open>network\<close> and \<^verbatim>\<open>payload.txHash\<close>, verified against the same store and ledger, get
  the same verdict: \<^verbatim>\<open>payload.amount\<close> and \<^verbatim>\<open>payload.from\<close> play no part in it.
\<close>

theorem verdict_ignores_amount_and_payer:
  assumes "JSON_parse R (base64ToString R ha) = Inr da"
      and "JSON_parse R (base64ToString R hb) = Inr db"
      and "lookupProp da ''x402Version'' = lookupProp db ''x402Version''"
      and "lookupProp da ''scheme'' = lookupProp db ''scheme''"
      and "lookupProp da ''network'' = lookupProp db ''network''"
      and "lookupProp (lookupProp da ''payload'') ''txHash''
             = lookupProp (lookupProp db ''payload'') ''txHash''"
  shows "isValid (fst (verifyPayment R vp ha)) = isValid (fst (verifyPayment R vp hb))"
  by (simp only: verifyPayment_verdict verifyTry_verdict[OF assms(1)] verifyTry_verdict[OF assms(2)]
        assms(3-6))

text \<open>
  An honest proof and one that claims a single unit from another payer, for the same
  transaction to the asset contract: the same verdict, and the underpaid one passes.
\<close>

theorem verdict_ignores_amount_and_payer_witness:
  "isValid (fst (verifyPayment
      ((platform (Inr JNull)
          (\<lambda>hash. Inr (Some \<lparr> receipt.status = ''success'', to = Some (assetAddress X402_CONFIG) \<rparr>))
          1700000000000 ''0.4fzyo82mvyr'')
        \<lparr> JSON_parse := (\<lambda>text. if text = ''honest'' then Inr (paymentProof ''0xabc'' ''1000'' ''0x01'')
                                 else Inr (paymentProof ''0xabc'' ''1'' ''0x02'')) \<rparr>)
      [] ''honest''))
   = isValid (fst (verifyPayment
      ((platform (Inr JNull)
          (\<lambda>hash. Inr (Some \<lparr> receipt.status = ''success'', to = Some (assetAddress X402_CONFIG) \<rparr>))
          1700000000000 ''0.4fzyo82mvyr'')
        \<lparr> JSON_parse := (\<lambda>text. if text = ''honest'' then Inr (paymentProof ''0xabc'' ''1000'' ''0x01'')
                                 else Inr (paymentProof ''0xabc'' ''1'' ''0x02'')) \<rparr>)
      [] ''underpaid''))
   \<and> isValid (fst (verifyPayment
      ((platform (Inr JNull)
          (\<lambda>hash. Inr (Some \<lparr> receipt.status = ''success'', to = Some (assetAddress X402_CONFIG) \<rparr>))
          1700000000000 ''0.4fzyo82mvyr'')
        \<lparr> JSON_parse := (\<lambda>text. if text = ''honest'' then Inr (paymentProof ''0xabc'' ''1000'' ''0x01'')
                                 else Inr (paymentProof ''0xabc'' ''1'' ''0x02'')) \<rparr>)
      [] ''underpaid''))"
proof -
  let ?R = "(platform (Inr JNull)
          (\<lambda>hash. Inr (Some \<lparr> receipt.status = ''success'', to = Some (assetAddress X402_CONFIG) \<rparr>))
          1700000000000 ''0.4fzyo82mvyr'')
        \<lparr> JSON_parse := (\<lambda>text. if text = ''honest'' then Inr (paymentProof ''0xabc'' ''1000'' ''0x01'')
                                 else Inr (paymentProof ''0xabc'' ''1'' ''0x02'')) \<rparr>"
  have same: "isValid (fst (verifyPayment ?R [] ''honest''))
                = isValid (fst (verifyPayment ?R [] ''underpaid''))"
    by (rule verdict_ignores_amount_and_payer[where da = "paymentProof ''0xabc'' ''1000'' ''0x01''"
          and db = "paymentProof ''0xabc'' ''1'' ''0x02''"])
       (simp_all add: paymentProof_fields platform_def)
  have "fst (verifyTry ?R [] ''underpaid'')
          = Inr \<lparr> isValid = True, reason = None, cached = None, txHash = Some (JString ''0xabc'') \<rparr>"
    by (subst verifyTry_reaches_chain[where d = "paymentProof ''0xabc'' ''1'' ''0x02''"
          and k = "JString ''0xabc''"])
       (simp_all add: paymentProof_fields platform_def verifyOnChain_def Map_has_def)
  then have "isValid (fst (verifyPayment ?R [] ''underpaid''))"
    by (simp add: verifyPayment_verdict)
  with same show ?thesis by simp
qed

text \<open>
  C10. A call that answers \<^verbatim>\<open>isValid: false\<close> returns the store it was given. The store
  changes only together with a fresh success: the answer is valid, not marked cached and
  carries the hash; the ledger was asked about that hash, once; the hash was not in the
  store, and the new store is the old one with one entry for it at the end.
\<close>

theorem store_changes_only_on_fresh_success:
  assumes "verifyPayment R vp h = (v, vp', asked)"
  shows "(\<not> isValid v \<longrightarrow> vp' = vp)
       \<and> (vp' \<noteq> vp \<longrightarrow>
            isValid v \<and> cached v = None
            \<and> (\<exists>k e. txHash v = Some k \<and> asked = [k] \<and> \<not> Map_has vp k \<and> vp' = vp @ [(k, e)]))"
  using assms
  by (auto simp: verify_defs rejected_def Map_set_def
        split: sum.splits if_splits option.splits prod.splits)

theorem store_changes_only_on_fresh_success_witness:
  "\<not> isValid (fst (verifyPayment
        (platform (Inr (paymentProof ''0xabc'' ''1000'' ''0x01''))
           (\<lambda>hash. Inr (Some \<lparr> receipt.status = ''reverted'', to = Some (assetAddress X402_CONFIG) \<rparr>))
           1700000000000 ''0.4fzyo82mvyr'')
        [(JString ''0xdef'', \<lparr> payment_record.timestamp = 1690000000000,
                               amount = JString ''1000'', from' = JString ''0x01'' \<rparr>)]
        ''header''))
   \<and> fst (snd (verifyPayment
        (platform (Inr (paymentProof ''0xabc'' ''1000'' ''0x01''))
           (\<lambda>hash. Inr (Some \<lparr> receipt.status = ''reverted'', to = Some (assetAddress X402_CONFIG) \<rparr>))
           1700000000000 ''0.4fzyo82mvyr'')
        [(JString ''0xdef'', \<lparr> payment_record.timestamp = 1690000000000,
                               amount = JString ''1000'', from' = JString ''0x01'' \<rparr>)]
        ''header''))
     = [(JString ''0xdef'', \<lparr> payment_record.timestamp = 1690000000000,
                              amount = JString ''1000'', from' = JString ''0x01'' \<rparr>)]"
proof -
  let ?R = "platform (Inr (paymentProof ''0xabc'' ''1000'' ''0x01''))
           (\<lambda>hash. Inr (Some \<lparr> receipt.status = ''reverted'', to = Some (assetAddress X402_CONFIG) \<rparr>))
           1700000000000 ''0.4fzyo82mvyr''"
  let ?vp = "[(JString ''0xdef'', \<lparr> payment_record.timestamp = 1690000000000,
                               amount = JString ''1000'', from' = JString ''0x01'' \<rparr>)]"
  let ?X = "verifyPayment ?R ?vp ''header''"
  have "verifyTry ?R ?vp ''header''
          = (Inr (rejected ''Transaction failed or not found''), ?vp, [JString ''0xabc''])"
    by (subst verifyTry_reaches_chain[where d = "paymentProof ''0xabc'' ''1000'' ''0x01''"
          and k = "JString ''0xabc''"])
       (simp_all add: paymentProof_fields platform_fields verifyOnChain_def Map_has_def)
  then have invalid: "\<not> isValid (fst ?X)"
    by (simp add: verifyPayment_def rejected_def)
  have "?X = (fst ?X, fst (snd ?X), snd (snd ?X))" by simp
  from store_changes_only_on_fresh_success[OF this] invalid show ?thesis by blast
qed

subsection \<open>The resource gate\<close>

text \<open>
  C6. A request without the header gets status 402 with a challenge just generated and
  carrying no error; the store is untouched and the ledger is not asked.
\<close>

theorem no_header_yields_challenge:
  "\<exists>c. generatePaymentChallenge R = Some c
     \<and> error c = None
     \<and> GET R vp None = (Some \<lparr> status = 402, body = ChallengeBody c \<rparr>, vp, [])"
  by (simp add: GET_def Let_def generatePaymentChallenge_issues)

theorem no_header_yields_challenge_witness:
  "\<exists>c. generatePaymentChallenge
          (platform (Inr (paymentProof ''0xabc'' ''1000'' ''0x01''))
             (\<lambda>hash. Inr (Some \<lparr> receipt.status = ''success'', to = Some (assetAddress X402_CONFIG) \<rparr>))
             1700000000000 ''0.4fzyo82mvyr'')
        = Some c
     \<and> error c = None
     \<and> GET (platform (Inr (paymentProof ''0xabc'' ''1000'' ''0x01''))
             (\<lambda>hash. Inr (Some \<lparr> receipt.status = ''success'', to = Some (assetAddress X402_CONFIG) \<rparr>))
             1700000000000 ''0.4fzyo82mvyr'')
           [(JString ''0xabc'', \<lparr> payment_record.timestamp = 1690000000000,
                                  amount = JString ''1000'', from' = JString ''0x01'' \<rparr>)]
           None
        = (Some \<lparr> status = 402, body = ChallengeBody c \<rparr>,
           [(JString ''0xabc'', \<lparr> payment_record.timestamp = 1690000000000,
                                  amount = JString ''1000'', from' = JString ''0x01'' \<rparr>)],
           [])"
  by (rule no_header_yields_challenge)

text \<open>
  \<^verbatim>\<open>verifyPayment\<close> catches whatever is thrown inside it. When the ledger query itself
  fails, for a proof that passes the gate with a truthy hash not in the store, the gate
  answers 402 with a new challenge whose \<^verbatim>\<open>error\<close> is \<^verbatim>\<open>Verification error: \<close> followed by
  the message of the exception the ledger client threw; the store is untouched.
\<close>

lemma ledger_fault_reaches_client:
  assumes "h \<noteq> []"
      and "JSON_parse R (base64ToString R h) = Inr d"
      and "lookupProp d ''x402Version'' = JNumber (Finite 1)"
      and "lookupProp d ''scheme'' = JString ''exact''"
      and "lookupProp d ''network'' = JString (x402_config.network X402_CONFIG)"
      and "lookupProp (lookupProp d ''payload'') ''txHash'' = k"
      and "truthy k"
      and "\<not> Map_has vp k"
      and "getTransactionReceipt R k = Inl e"
  shows "\<exists>c. generatePaymentChallenge R = Some c
           \<and> GET R vp (Some h)
               = (Some \<lparr> status = 402,
                         body = ChallengeBody
                                  (c\<lparr> error := Some (''Verification error: '' @ message e) \<rparr>) \<rparr>,
                  vp, [k])"
proof -
  have "verifyPayment R vp h = (rejected (''Verification error: '' @ message e), vp, [k])"
    by (simp add: verifyPayment_def verifyTry_reaches_chain[OF assms(2-7)] verifyOnChain_def
          assms(8,9))
  then show ?thesis
    using assms(1)
    by (simp add: GET_def Let_def generatePaymentChallenge_issues rejected_def orDefault_def)
qed

text \<open>
  C5. A failing ledger client must reach the client of the gate only as a challenge with a
  generic error. The gate does answer 402 with a new challenge, and nothing is thrown, but
  the error is not generic: the ledger client throws
  \<^verbatim>\<open>connect ECONNREFUSED 10.0.0.5:8545\<close>, and the requester reads that very message, with
  the node's address, in the challenge's \<^verbatim>\<open>error\<close>.
\<close>

theorem ledger_fault_message_is_leaked:
  "map_option status (fst (GET
     (platform (Inr (paymentProof ''0xabc'' ''1000'' ''0x01''))
        (\<lambda>hash. Inl (Thrown ''connect ECONNREFUSED 10.0.0.5:8545''))
        1700000000000 ''0.4fzyo82mvyr'')
     [] (Some ''header'')))
   = Some 402
   \<and> challengeError (fst (GET
     (platform (Inr (paymentProof ''0xabc'' ''1000'' ''0x01''))
        (\<lambda>hash. Inl (Thrown ''connect ECONNREFUSED 10.0.0.5:8545''))
        1700000000000 ''0.4fzyo82mvyr'')
     [] (Some ''header'')))
   = Some ''Verification error: connect ECONNREFUSED 10.0.0.5:8545''"
proof -
  obtain c where
    "GET (platform (Inr (paymentProof ''0xabc'' ''1000'' ''0x01''))
            (\<lambda>hash. Inl (Thrown ''connect ECONNREFUSED 10.0.0.5:8545''))
            1700000000000 ''0.4fzyo82mvyr'')
         [] (Some ''header'')
       = (Some \<lparr> status = 402,
                 body = ChallengeBody
                   (c\<lparr> error := Some (''Verification error: ''
                                        @ message (Thrown ''connect ECONNREFUSED 10.0.0.5:8545'')) \<rparr>) \<rparr>,
          [], [JString ''0xabc''])"
    using ledger_fault_reaches_client[where d = "paymentProof ''0xabc'' ''1000'' ''0x01''"
        and k = "JString ''0xabc''" and h = "''header''" and vp = "[]"
        and e = "Thrown ''connect ECONNREFUSED 10.0.0.5:8545''"
        and R = "platform (Inr (paymentProof ''0xabc'' ''1000'' ''0x01''))
                   (\<lambda>hash. Inl (Thrown ''connect ECONNREFUSED 10.0.0.5:8545''))
                   1700000000000 ''0.4fzyo82mvyr''"]
    by (auto simp: paymentProof_fields platform_fields Map_has_def)
  then show ?thesis
    by (simp add: challengeError_def)
qed

end
